theory Spec2Isabelle
  imports Main "HOL-Library.Word"
begin

unbundle bit_operations_syntax

section \<open>Memory model\<close>

text \<open>
  The simulator of \<^verbatim>\<open>csim.c\<close> keeps every cache set as a singly linked list of
  heap-allocated blocks, with three pointers into the list (\<^verbatim>\<open>head\<close>, \<^verbatim>\<open>curr\<close>,
  \<^verbatim>\<open>tail\<close>). Blocks are shared between these pointers and the \<^verbatim>\<open>next\<close> links, so the
  blocks live in an explicit store. The store is split by type: one map for
  \<^verbatim>\<open>cache_block_t\<close> objects, one for \<^verbatim>\<open>cache_set_t\<close> objects, and the single array
  \<^verbatim>\<open>cache\<close> of set pointers. A pointer is an optional address, \<open>None\<close> being \<^verbatim>\<open>NULL\<close>.

  What C leaves undefined (dereferencing \<^verbatim>\<open>NULL\<close> or freed memory, a shift by a count
  outside the width of the type, signed overflow) is a \<open>fault\<close> of the model.
\<close>

type_synonym addr = nat
type_synonym ptr = "addr option"

datatype fault = NullDeref | Dangling | OutOfBounds | ShiftRange | SignedOverflow | Uninitialised

record cache_block =
  tag :: "64 word"
  dirty :: "32 word"
  "next" :: ptr

record cache_set =
  head :: ptr
  curr :: ptr
  size_s :: int
  tail :: ptr

text \<open>
  \<open>fresh\<close> is the allocator's state: \<^verbatim>\<open>malloc\<close> hands out an address it never handed
  out before. \<open>outcomes\<close> lists the results of the coming allocation requests (\<open>False\<close>:
  the request fails and returns \<^verbatim>\<open>NULL\<close>); once the list is used up, every request
  succeeds.
\<close>

record mem =
  blocks :: "addr \<rightharpoonup> cache_block"
  sets :: "addr \<rightharpoonup> cache_set"
  table :: "ptr list option"
  fresh :: addr
  outcomes :: "bool list"

definition INT_MAX :: int where
  "INT_MAX = 2 ^ 31 - 1"

definition INT_MIN :: int where
  "INT_MIN = - (2 ^ 31)"

subsection \<open>Results: faults and divergence\<close>

text \<open>
  A function without a loop returns \<open>fault + 'a\<close>. A function with a loop over the
  store returns \<open>(fault + 'a) option\<close>, where \<open>None\<close> stands for a loop that never ends.
\<close>

definition bnd :: "fault + 'a \<Rightarrow> ('a \<Rightarrow> fault + 'b) \<Rightarrow> fault + 'b" where
  "bnd x f = (case x of Inl e \<Rightarrow> Inl e | Inr v \<Rightarrow> f v)"

definition thn :: "(fault + 'a) option \<Rightarrow> ('a \<Rightarrow> (fault + 'b) option) \<Rightarrow> (fault + 'b) option" where
  "thn x f = Option.bind x (\<lambda>r. case r of Inl e \<Rightarrow> Some (Inl e) | Inr v \<Rightarrow> f v)"

definition ok :: "'a \<Rightarrow> (fault + 'a) option" where
  "ok v = Some (Inr v)"

definition block_at :: "mem \<Rightarrow> ptr \<Rightarrow> fault + cache_block" where
  "block_at m p =
     (case p of None \<Rightarrow> Inl NullDeref
      | Some a \<Rightarrow> (case blocks m a of None \<Rightarrow> Inl Dangling | Some blk \<Rightarrow> Inr blk))"

definition set_at :: "mem \<Rightarrow> ptr \<Rightarrow> fault + cache_set" where
  "set_at m p =
     (case p of None \<Rightarrow> Inl NullDeref
      | Some a \<Rightarrow> (case sets m a of None \<Rightarrow> Inl Dangling | Some st \<Rightarrow> Inr st))"

definition put_block :: "addr \<Rightarrow> cache_block \<Rightarrow> mem \<Rightarrow> mem" where
  "put_block a blk m = m\<lparr>blocks := (blocks m)(a \<mapsto> blk)\<rparr>"

definition put_set :: "addr \<Rightarrow> cache_set \<Rightarrow> mem \<Rightarrow> mem" where
  "put_set a st m = m\<lparr>sets := (sets m)(a \<mapsto> st)\<rparr>"

definition malloc :: "mem \<Rightarrow> ptr \<times> mem" where
  "malloc m =
     (case outcomes m of
        [] \<Rightarrow> (Some (fresh m), m\<lparr>fresh := Suc (fresh m)\<rparr>)
      | r # rs \<Rightarrow>
          if r then (Some (fresh m), m\<lparr>fresh := Suc (fresh m), outcomes := rs\<rparr>)
          else (None, m\<lparr>outcomes := rs\<rparr>))"

text \<open>\<^verbatim>\<open>free(p)\<close>: nothing for \<^verbatim>\<open>NULL\<close>, a fault for memory that is not allocated.\<close>

definition free_block :: "ptr \<Rightarrow> mem \<Rightarrow> fault + mem" where
  "free_block p m =
     (case p of None \<Rightarrow> Inr m
      | Some a \<Rightarrow> (case blocks m a of None \<Rightarrow> Inl Dangling
                   | Some blk \<Rightarrow> Inr (m\<lparr>blocks := (blocks m)(a := None)\<rparr>)))"

definition free_set :: "ptr \<Rightarrow> mem \<Rightarrow> fault + mem" where
  "free_set p m =
     (case p of None \<Rightarrow> Inr m
      | Some a \<Rightarrow> (case sets m a of None \<Rightarrow> Inl Dangling
                   | Some st \<Rightarrow> Inr (m\<lparr>sets := (sets m)(a := None)\<rparr>)))"

section \<open>Blocks and sets\<close>

text \<open>\<^verbatim>\<open>new_cache_block\<close> (lines 44-55).\<close>

definition new_cache_block :: "64 word \<Rightarrow> mem \<Rightarrow> ptr \<times> mem" where
  "new_cache_block t m =
     (case malloc m of
        (None, m1) \<Rightarrow> (None, m1)
      | (Some a, m1) \<Rightarrow> (Some a, put_block a \<lparr>tag = t, dirty = 0, next = None\<rparr> m1))"

text \<open>\<^verbatim>\<open>new_cache_set\<close> (lines 61-73).\<close>

definition new_cache_set :: "mem \<Rightarrow> ptr \<times> mem" where
  "new_cache_set m =
     (case malloc m of
        (None, m1) \<Rightarrow> (None, m1)
      | (Some a, m1) \<Rightarrow>
          (Some a, put_set a \<lparr>head = None, curr = None, size_s = 0, tail = None\<rparr> m1))"

text \<open>\<^verbatim>\<open>cache_set_insert_head\<close> (lines 80-87).\<close>

definition cache_set_insert_head :: "ptr \<Rightarrow> ptr \<Rightarrow> mem \<Rightarrow> fault + mem" where
  "cache_set_insert_head setp block m =
     (case setp of None \<Rightarrow> Inr m
      | Some sa \<Rightarrow>
          bnd (set_at m setp) (\<lambda>st.
          bnd (block_at m block) (\<lambda>blk.
            let m1 = put_block (the block) (blk\<lparr>next := head st\<rparr>) m;
                st1 = st\<lparr>head := block\<rparr>;
                st2 = st1\<lparr>curr := head st1\<rparr>
            in if size_s st2 = INT_MAX then Inl SignedOverflow
               else Inr (put_set sa (st2\<lparr>size_s := size_s st2 + 1\<rparr>) m1))))"

text \<open>
  The two walks of \<^verbatim>\<open>cache_set_remove_current\<close> (lines 103-106 and 112-115):
  \<^verbatim>\<open>while (pointer->next != target) pointer = pointer->next;\<close>
\<close>

partial_function (option) find_pred :: "mem \<Rightarrow> ptr \<Rightarrow> ptr \<Rightarrow> (fault + addr) option" where
  "find_pred m pointer target =
     (case block_at m pointer of
        Inl e \<Rightarrow> Some (Inl e)
      | Inr blk \<Rightarrow>
          if next blk \<noteq> target then find_pred m (next blk) target
          else Some (Inr (the pointer)))"

declare find_pred.simps [code]

text \<open>\<^verbatim>\<open>set->size--\<close> (line 119).\<close>

definition dec_size :: "addr \<Rightarrow> mem \<Rightarrow> fault + mem" where
  "dec_size sa m =
     bnd (set_at m (Some sa)) (\<lambda>st.
       if size_s st = INT_MIN then Inl SignedOverflow
       else Inr (put_set sa (st\<lparr>size_s := size_s st - 1\<rparr>) m))"

text \<open>\<^verbatim>\<open>cache_set_remove_current\<close> (lines 94-123); the result is \<^verbatim>\<open>saved\<close>.\<close>

definition cache_set_remove_current :: "ptr \<Rightarrow> mem \<Rightarrow> (fault + ptr \<times> mem) option" where
  "cache_set_remove_current setp m =
     (case setp of None \<Rightarrow> ok (None, m)
      | Some sa \<Rightarrow>
          thn (Some (set_at m setp)) (\<lambda>st.
          thn (if head st = curr st then
                 Some (bnd (block_at m (head st)) (\<lambda>hb.
                   let st1 = st\<lparr>head := next hb\<rparr>
                   in Inr (head st, put_set sa (st1\<lparr>curr := head st1\<rparr>) m)))
               else if tail st = curr st then
                 thn (find_pred m (head st) (tail st)) (\<lambda>pointer.
                 Some (bnd (block_at m (Some pointer)) (\<lambda>pb.
                   let st1 = st\<lparr>tail := Some pointer\<rparr>;
                       m1 = put_block pointer (pb\<lparr>next := None\<rparr>) m
                   in Inr (tail st, put_set sa (st1\<lparr>curr := tail st1\<rparr>) m1))))
               else
                 thn (find_pred m (head st) (curr st)) (\<lambda>pointer.
                 Some (bnd (block_at m (Some pointer)) (\<lambda>pb.
                       bnd (block_at m (next pb)) (\<lambda>nb.
                   Inr (curr st, put_block pointer (pb\<lparr>next := next nb\<rparr>) m))))))
            (\<lambda>(saved, m1). Some (bnd (dec_size sa m1) (\<lambda>m2. Inr (saved, m2))))))"

text \<open>
  The walk of \<^verbatim>\<open>cache_set_remove_tail\<close> (lines 134-137):
  \<^verbatim>\<open>while (pointer->next->next != NULL) pointer = pointer->next;\<close>
\<close>

partial_function (option) find_before_last :: "mem \<Rightarrow> ptr \<Rightarrow> (fault + addr) option" where
  "find_before_last m pointer =
     (case block_at m pointer of
        Inl e \<Rightarrow> Some (Inl e)
      | Inr blk \<Rightarrow>
          (case block_at m (next blk) of
             Inl e \<Rightarrow> Some (Inl e)
           | Inr nb \<Rightarrow>
               if next nb \<noteq> None then find_before_last m (next blk)
               else Some (Inr (the pointer))))"

declare find_before_last.simps [code]

text \<open>
  \<^verbatim>\<open>cache_set_remove_tail\<close> (lines 129-144). With a single block in the list the head
  is set to \<^verbatim>\<open>NULL\<close> and the block is not freed; \<^verbatim>\<open>size\<close> is left as it is in both
  branches.
\<close>

definition cache_set_remove_tail :: "ptr \<Rightarrow> mem \<Rightarrow> (fault + mem) option" where
  "cache_set_remove_tail setp m =
     (case setp of None \<Rightarrow> ok m
      | Some sa \<Rightarrow>
          thn (Some (set_at m setp)) (\<lambda>st.
          thn (Some (block_at m (head st))) (\<lambda>hb.
            if next hb = None then ok (put_set sa (st\<lparr>head := None\<rparr>) m)
            else
              thn (find_before_last m (head st)) (\<lambda>pointer.
              thn (Some (block_at m (Some pointer))) (\<lambda>pb.
                let removed = next pb;
                    m1 = put_set sa (st\<lparr>tail := Some pointer\<rparr>) m;
                    m2 = put_block pointer (pb\<lparr>next := None\<rparr>) m1
                in Some (free_block removed m2))))))"

text \<open>
  \<^verbatim>\<open>cache_set_size\<close> (lines 151-156). The condition is
  \<^verbatim>\<open>set || set->head == set->tail\<close>: the right operand is evaluated only when \<^verbatim>\<open>set\<close>
  is \<^verbatim>\<open>NULL\<close>, and then dereferences it.
\<close>

definition cache_set_size :: "ptr \<Rightarrow> mem \<Rightarrow> fault + int" where
  "cache_set_size setp m =
     (if setp \<noteq> None then Inr 0
      else bnd (set_at m setp) (\<lambda>st.
             if head st = tail st then Inr 0
             else bnd (set_at m setp) (\<lambda>st. Inr (size_s st))))"

text \<open>\<^verbatim>\<open>set_dirty\<close> (lines 203-207).\<close>

definition set_dirty :: "ptr \<Rightarrow> char \<Rightarrow> mem \<Rightarrow> fault + mem" where
  "set_dirty block operator m =
     (if operator = CHR ''S''
      then bnd (block_at m block) (\<lambda>blk. Inr (put_block (the block) (blk\<lparr>dirty := 1\<rparr>) m))
      else Inr m)"

text \<open>\<^verbatim>\<open>dirty_tail\<close> (lines 213-219): walk to the last block and read its dirty flag.\<close>

partial_function (option) last_dirty :: "mem \<Rightarrow> ptr \<Rightarrow> (fault + 32 word) option" where
  "last_dirty m pointer =
     (case block_at m pointer of
        Inl e \<Rightarrow> Some (Inl e)
      | Inr blk \<Rightarrow>
          if next blk \<noteq> None then last_dirty m (next blk)
          else Some (Inr (dirty blk)))"

declare last_dirty.simps [code]

definition dirty_tail :: "ptr \<Rightarrow> mem \<Rightarrow> (fault + 32 word) option" where
  "dirty_tail setp m = thn (Some (set_at m setp)) (\<lambda>st. last_dirty m (head st))"

section \<open>The simulator\<close>

subsection \<open>Integer operations of \<^verbatim>\<open>main\<close>\<close>

text \<open>
  \<^verbatim>\<open>s\<close>, \<^verbatim>\<open>E\<close> and \<^verbatim>\<open>b\<close> are C \<^verbatim>\<open>int\<close>s (the results of \<^verbatim>\<open>atoi\<close>), addresses and
  counters are \<^verbatim>\<open>unsigned long\<close> (64 bits, arithmetic modulo \<open>2 ^ 64\<close>).
\<close>

definition shr_ulong :: "64 word \<Rightarrow> int \<Rightarrow> fault + 64 word" where
  "shr_ulong x n = (if 0 \<le> n \<and> n < 64 then Inr (drop_bit (nat n) x) else Inl ShiftRange)"

definition shl_ulong :: "64 word \<Rightarrow> int \<Rightarrow> fault + 64 word" where
  "shl_ulong x n = (if 0 \<le> n \<and> n < 64 then Inr (push_bit (nat n) x) else Inl ShiftRange)"

definition add_int :: "int \<Rightarrow> int \<Rightarrow> fault + int" where
  "add_int x y = (if INT_MIN \<le> x + y \<and> x + y \<le> INT_MAX then Inr (x + y) else Inl SignedOverflow)"

definition mul_int :: "int \<Rightarrow> int \<Rightarrow> fault + int" where
  "mul_int x y = (if INT_MIN \<le> x * y \<and> x * y \<le> INT_MAX then Inr (x * y) else Inl SignedOverflow)"

text \<open>\<^verbatim>\<open>1 << n\<close> on \<^verbatim>\<open>int\<close>: defined only when the result fits.\<close>

definition shl_int_1 :: "int \<Rightarrow> fault + int" where
  "shl_int_1 n =
     (if n < 0 \<or> 32 \<le> n then Inl ShiftRange
      else if INT_MAX < 2 ^ nat n then Inl SignedOverflow
      else Inr (2 ^ nat n))"

subsection \<open>The array of sets\<close>

text \<open>\<^verbatim>\<open>cache[i]\<close> read and written.\<close>

definition cache_at :: "mem \<Rightarrow> nat \<Rightarrow> fault + ptr" where
  "cache_at m i =
     (case table m of None \<Rightarrow> Inl NullDeref
      | Some tbl \<Rightarrow> if i < length tbl then Inr (tbl ! i) else Inl OutOfBounds)"

definition cache_store :: "nat \<Rightarrow> ptr \<Rightarrow> mem \<Rightarrow> fault + mem" where
  "cache_store i p m =
     (case table m of None \<Rightarrow> Inl NullDeref
      | Some tbl \<Rightarrow> if i < length tbl then Inr (m\<lparr>table := Some (tbl[i := p])\<rparr>)
                    else Inl OutOfBounds)"

text \<open>The inner loop of \<^verbatim>\<open>full_free_cache\<close> (lines 166-172).\<close>

partial_function (option) free_chain :: "mem \<Rightarrow> ptr \<Rightarrow> (fault + mem) option" where
  "free_chain m cur =
     (if cur \<noteq> None then
        (case block_at m cur of
           Inl e \<Rightarrow> Some (Inl e)
         | Inr blk \<Rightarrow>
             (case free_block cur m of
                Inl e \<Rightarrow> Some (Inl e)
              | Inr m1 \<Rightarrow> free_chain m1 (next blk)))
      else Some (Inr m))"

declare free_chain.simps [code]

function free_blocks_loop :: "nat \<Rightarrow> nat \<Rightarrow> mem \<Rightarrow> (fault + mem) option" where
  "free_blocks_loop S i m =
     (if i < S then
        thn (Some (cache_at m i)) (\<lambda>setp.
        thn (Some (set_at m setp)) (\<lambda>st.
        thn (free_chain m (head st)) (\<lambda>m1.
        free_blocks_loop S (Suc i) m1)))
      else ok m)"
  by pat_completeness auto
termination
  by (relation "measure (\<lambda>(S, i, m). S - i)") auto

function free_sets_loop :: "nat \<Rightarrow> nat \<Rightarrow> mem \<Rightarrow> fault + mem" where
  "free_sets_loop n j m =
     (if j < n then
        bnd (cache_at m j) (\<lambda>setp.
        bnd (free_set setp m) (\<lambda>m1.
        free_sets_loop n (Suc j) m1))
      else Inr m)"
  by pat_completeness auto
termination
  by (relation "measure (\<lambda>(n, j, m). n - j)") auto

declare free_blocks_loop.simps [simp del]
declare free_sets_loop.simps [simp del]

text \<open>\<^verbatim>\<open>full_free_cache\<close> (lines 163-181); \<^verbatim>\<open>cache\<close> is the array held in \<open>table\<close>.\<close>

definition full_free_cache :: "nat \<Rightarrow> mem \<Rightarrow> (fault + mem) option" where
  "full_free_cache S m =
     (if table m \<noteq> None then
        thn (free_blocks_loop S 0 m) (\<lambda>m1.
        thn (Some (free_sets_loop S 0 m1)) (\<lambda>m2.
        ok (m2\<lparr>table := None\<rparr>)))
      else ok m)"

text \<open>\<^verbatim>\<open>free_sets\<close> (lines 188-196).\<close>

definition free_sets :: "nat \<Rightarrow> mem \<Rightarrow> fault + mem" where
  "free_sets i m =
     (if table m \<noteq> None then
        bnd (free_sets_loop i 0 m) (\<lambda>m1. Inr (m1\<lparr>table := None\<rparr>))
      else Inr m)"

text \<open>\<^verbatim>\<open>count_dirty\<close> (lines 226-236): the inner loop, then the loop over the sets.\<close>

partial_function (option) count_chain :: "mem \<Rightarrow> ptr \<Rightarrow> int \<Rightarrow> (fault + int) option" where
  "count_chain m cur n =
     (if cur \<noteq> None then
        (case block_at m cur of
           Inl e \<Rightarrow> Some (Inl e)
         | Inr blk \<Rightarrow>
             if dirty blk \<noteq> 0 then
               (if n = INT_MAX then Some (Inl SignedOverflow)
                else count_chain m (next blk) (n + 1))
             else count_chain m (next blk) n)
      else Some (Inr n))"

declare count_chain.simps [code]

function count_dirty_loop :: "mem \<Rightarrow> nat \<Rightarrow> nat \<Rightarrow> int \<Rightarrow> (fault + int) option" where
  "count_dirty_loop m S i n =
     (if i < S then
        thn (Some (cache_at m i)) (\<lambda>setp.
        thn (Some (set_at m setp)) (\<lambda>st.
        thn (count_chain m (head st) n) (\<lambda>n1.
        count_dirty_loop m S (Suc i) n1)))
      else ok n)"
  by pat_completeness auto
termination
  by (relation "measure (\<lambda>(m, S, i, n). S - i)") auto

declare count_dirty_loop.simps [simp del]

definition count_dirty :: "mem \<Rightarrow> nat \<Rightarrow> (fault + int) option" where
  "count_dirty m S = count_dirty_loop m S 0 0"

subsection \<open>One line of the trace\<close>

type_synonym event = "char \<times> 64 word \<times> int"

text \<open>
  The variables of \<^verbatim>\<open>main\<close> that live across the lines of the trace, and what the
  verbose mode has printed so far (operation, address, size and message of each line).
\<close>

record locals =
  memory :: mem
  hit :: "64 word"
  miss :: "64 word"
  eviction :: "64 word"
  dirty_eviction :: "64 word"
  printed :: "(char \<times> 64 word \<times> int \<times> string) list"

text \<open>
  The walk of lines 341-343:
  \<^verbatim>\<open>while (cache[which_set]->curr != pointer) cache[which_set]->curr = cache[which_set]->curr->next;\<close>
\<close>

partial_function (option) advance_curr :: "ptr \<Rightarrow> ptr \<Rightarrow> mem \<Rightarrow> (fault + mem) option" where
  "advance_curr setp pointer m =
     (case set_at m setp of
        Inl e \<Rightarrow> Some (Inl e)
      | Inr st \<Rightarrow>
          if curr st \<noteq> pointer then
            (case block_at m (curr st) of
               Inl e \<Rightarrow> Some (Inl e)
             | Inr cb \<Rightarrow> advance_curr setp pointer (put_set (the setp) (st\<lparr>curr := next cb\<rparr>) m))
          else Some (Inr m))"

declare advance_curr.simps [code]

lemma thn_mono [partial_function_mono]:
  assumes "mono_option B" and "\<And>y. mono_option (\<lambda>f. C y f)"
  shows "mono_option (\<lambda>f. thn (B f) (\<lambda>y. C y f))"
  unfolding thn_def
proof (rule bind_mono [OF assms(1)])
  fix r
  show "mono_option (\<lambda>f. case r of Inl e \<Rightarrow> Some (Inl e) | Inr v \<Rightarrow> C v f)"
    by (cases r) (simp_all add: assms(2) option.const_mono)
qed

text \<open>
  The move of the matched block to the head (lines 341-347): the walk of \<^verbatim>\<open>curr\<close>,
  \<^verbatim>\<open>cache_set_remove_current\<close>, \<^verbatim>\<open>set_dirty\<close>, \<^verbatim>\<open>cache_set_insert_head\<close>.
\<close>

definition promote :: "ptr \<Rightarrow> ptr \<Rightarrow> char \<Rightarrow> mem \<Rightarrow> (fault + mem) option" where
  "promote setp pointer operator m =
     thn (advance_curr setp pointer m) (\<lambda>m1.
     thn (cache_set_remove_current setp m1) (\<lambda>(ru_block, m2).
     thn (Some (set_dirty ru_block operator m2)) (\<lambda>m3.
     Some (cache_set_insert_head setp ru_block m3))))"

text \<open>
  The search for an existing tag (lines 338-350). After a match the block is moved to
  the head, and the \<^verbatim>\<open>for\<close> loop goes on from the moved block's new \<^verbatim>\<open>next\<close>.
\<close>

partial_function (option) search ::
  "ptr \<Rightarrow> 64 word \<Rightarrow> char \<Rightarrow> ptr \<Rightarrow> bool \<Rightarrow> mem \<Rightarrow> (fault + bool \<times> mem) option" where
  "search setp which_cache_line operator pointer found m =
     (if pointer \<noteq> None then
        (case block_at m pointer of
           Inl e \<Rightarrow> Some (Inl e)
         | Inr blk \<Rightarrow>
             if tag blk = which_cache_line then
               thn (promote setp pointer operator m) (\<lambda>m4.
               thn (Some (block_at m4 pointer)) (\<lambda>blk1.
               search setp which_cache_line operator (next blk1) True m4))
             else search setp which_cache_line operator (next blk) found m)
      else Some (Inr (found, m)))"

declare search.simps [code]

text \<open>The dirty flag of the block that replaces an evicted one (lines 366-370).\<close>

definition init_dirty :: "ptr \<Rightarrow> char \<Rightarrow> mem \<Rightarrow> fault + mem" where
  "init_dirty new_block operator m =
     (if operator = CHR ''L'' then
        bnd (block_at m new_block) (\<lambda>nb. Inr (put_block (the new_block) (nb\<lparr>dirty := 0\<rparr>) m))
      else if operator = CHR ''S'' then
        bnd (block_at m new_block) (\<lambda>nb. Inr (put_block (the new_block) (nb\<lparr>dirty := 1\<rparr>) m))
      else Inr m)"

text \<open>
  The miss path (lines 352-375), entered when nothing was found: the result is
  \<^verbatim>\<open>missed\<close>, \<^verbatim>\<open>evicted\<close>, the new value of \<^verbatim>\<open>dirty_eviction\<close> and the memory.
\<close>

definition insert_or_evict ::
  "ptr \<Rightarrow> int \<Rightarrow> 64 word \<Rightarrow> char \<Rightarrow> 64 word \<Rightarrow> mem \<Rightarrow> (fault + bool \<times> bool \<times> 64 word \<times> mem) option" where
  "insert_or_evict setp E which_cache_line operator dirty_ev m =
     thn (Some (set_at m setp)) (\<lambda>st.
       if size_s st < E then
         (case new_cache_block which_cache_line m of (new_block, m1) \<Rightarrow>
            thn (Some (cache_set_insert_head setp new_block m1)) (\<lambda>m2.
            thn (Some (set_dirty new_block operator m2)) (\<lambda>m3.
            ok (True, False, dirty_ev, m3))))
       else
         (case new_cache_block which_cache_line m of (new_block, m1) \<Rightarrow>
            thn (dirty_tail setp m1) (\<lambda>d.
            let dirty_ev1 = (if d \<noteq> 0 then dirty_ev + 1 else dirty_ev) in
            thn (Some (init_dirty new_block operator m1)) (\<lambda>m2.
            thn (cache_set_remove_tail setp m2) (\<lambda>m3.
            thn (Some (cache_set_insert_head setp new_block m3)) (\<lambda>m4.
            ok (False, True, dirty_ev1, m4)))))))"

text \<open>
  The \<^verbatim>\<open>switch\<close> of lines 378-409: the counters, the message (\<open>None\<close> while \<^verbatim>\<open>msg\<close>
  is not assigned) and \<^verbatim>\<open>invalid_operator\<close>.
\<close>

definition tally :: "bool \<Rightarrow> bool \<Rightarrow> bool \<Rightarrow> locals \<Rightarrow> string option \<times> locals" where
  "tally found missed evicted l =
     (if found then (Some ''hit'', l\<lparr>hit := hit l + 1\<rparr>)
      else if missed then (Some ''miss'', l\<lparr>miss := miss l + 1\<rparr>)
      else if evicted then
        (Some ''miss eviction'', l\<lparr>miss := miss l + 1, eviction := eviction l + 1\<rparr>)
      else (None, l))"

definition outcome_switch ::
  "char \<Rightarrow> bool \<Rightarrow> bool \<Rightarrow> bool \<Rightarrow> locals \<Rightarrow> bool \<times> string option \<times> locals" where
  "outcome_switch operator found missed evicted l =
     (if operator = CHR ''S'' then (False, tally found missed evicted l)
      else if operator = CHR ''L'' then (False, tally found missed evicted l)
      else (True, None, l))"

text \<open>
  The set index and the tag of an address (lines 332-333), with \<^verbatim>\<open>S\<close> the number of
  sets: \<^verbatim>\<open>(address >> b) & (S - 1)\<close> and \<^verbatim>\<open>address >> (b + s)\<close>.
\<close>

definition locate :: "int \<Rightarrow> int \<Rightarrow> 64 word \<Rightarrow> 64 word \<Rightarrow> fault + 64 word \<times> 64 word" where
  "locate s b S address =
     bnd (shr_ulong address b) (\<lambda>shifted.
     let which_set = shifted AND (S - 1) in
     bnd (add_int b s) (\<lambda>bs.
     bnd (shr_ulong address bs) (\<lambda>which_cache_line.
     Inr (which_set, which_cache_line))))"

text \<open>
  The body of the \<^verbatim>\<open>while\<close> loop up to the test of \<^verbatim>\<open>invalid_operator\<close> (lines
  330-409): the result is \<^verbatim>\<open>invalid_operator\<close>, \<^verbatim>\<open>msg\<close> and the variables.
\<close>

definition access ::
  "int \<Rightarrow> int \<Rightarrow> int \<Rightarrow> 64 word \<Rightarrow> event \<Rightarrow> locals \<Rightarrow> (fault + bool \<times> string option \<times> locals) option" where
  "access s E b S ev l =
     (case ev of (operator, address, sz) \<Rightarrow>
        thn (Some (locate s b S address)) (\<lambda>(which_set, which_cache_line).
        thn (Some (cache_at (memory l) (unat which_set))) (\<lambda>setp.
        thn (Some (set_at (memory l) setp)) (\<lambda>st.
        thn (search setp which_cache_line operator (head st) False (memory l)) (\<lambda>(found, m1).
        thn (if \<not> found then
               insert_or_evict setp E which_cache_line operator (dirty_eviction l) m1
             else ok (False, False, dirty_eviction l, m1)) (\<lambda>(missed, evicted, dirty_ev, m2).
        ok (outcome_switch operator found missed evicted
              (l\<lparr>memory := m2, dirty_eviction := dirty_ev\<rparr>))))))))"

text \<open>
  The \<^verbatim>\<open>while\<close> loop over the lines of the trace (lines 329-420). The loop ends with
  the trace, or at a line with an invalid operation, after \<^verbatim>\<open>full_free_cache\<close>.
\<close>

datatype loop_exit = End_of_trace locals | Invalid_operator char locals

fun trace_loop ::
  "bool \<Rightarrow> int \<Rightarrow> int \<Rightarrow> int \<Rightarrow> 64 word \<Rightarrow> event list \<Rightarrow> locals \<Rightarrow> (fault + loop_exit) option" where
  "trace_loop v s E b S [] l = ok (End_of_trace l)"
| "trace_loop v s E b S (ev # evs) l =
     thn (access s E b S ev l) (\<lambda>(invalid_operator, msg, l1).
       if invalid_operator then
         thn (full_free_cache (unat S) (memory l1)) (\<lambda>m.
         ok (Invalid_operator (fst ev) (l1\<lparr>memory := m\<rparr>)))
       else if v then
         (case msg of
            None \<Rightarrow> Some (Inl Uninitialised)
          | Some text \<Rightarrow>
              trace_loop v s E b S evs
                (l1\<lparr>printed := printed l1 @ [(fst ev, fst (snd ev), snd (snd ev), text)]\<rparr>))
       else trace_loop v s E b S evs l1)"

subsection \<open>The whole run\<close>

text \<open>
  Modelled from the spec: the type \<^verbatim>\<open>csim_stats_t\<close> is declared in \<^verbatim>\<open>cachelab.h\<close>,
  which is not among the sources. Its five fields are the ones \<^verbatim>\<open>main\<close> assigns
  (lines 428-432); they are the end-of-run aggregate of the specification: hit count,
  miss count, eviction count, dirty bytes resident, dirty bytes evicted.
\<close>

record csim_stats =
  hits :: "64 word"
  misses :: "64 word"
  evictions :: "64 word"
  dirty_bytes :: "64 word"
  dirty_evictions :: "64 word"

text \<open>The loop that builds the sets (lines 301-308); \<open>False\<close> is the early return.\<close>

function build_sets :: "nat \<Rightarrow> nat \<Rightarrow> mem \<Rightarrow> fault + bool \<times> mem" where
  "build_sets S i m =
     (if i < S then
        (case new_cache_set m of (p, m1) \<Rightarrow>
           bnd (cache_store i p m1) (\<lambda>m2.
             if p = None then bnd (free_sets i m2) (\<lambda>m3. Inr (False, m3))
             else build_sets S (Suc i) m2))
      else Inr (True, m))"
  by pat_completeness auto
termination
  by (relation "measure (\<lambda>(S, i, m). S - i)") auto

declare build_sets.simps [simp del]

text \<open>
  The totals (lines 422-423), from the result \<open>cd\<close> of \<^verbatim>\<open>count_dirty\<close>: the first
  product is one of two \<^verbatim>\<open>int\<close>s, converted afterwards; the second is one of
  \<^verbatim>\<open>unsigned long\<close>s. Then the summary (lines 426-439); the memory of \<^verbatim>\<open>stats\<close> is
  requested and released there and is not kept in the store.
\<close>

definition totals :: "int \<Rightarrow> int \<Rightarrow> 64 word \<Rightarrow> fault + 64 word \<times> 64 word" where
  "totals b cd dirty_ev =
     bnd (shl_int_1 b) (\<lambda>bsize.
     bnd (mul_int cd bsize) (\<lambda>product.
     let dirty_byte = (word_of_int product :: 64 word) in
     bnd (shl_int_1 b) (\<lambda>bsize1.
     let dirty_ev1 = dirty_ev * word_of_int bsize1 in
     Inr (dirty_byte, dirty_ev1))))"

definition summary :: "int \<Rightarrow> nat \<Rightarrow> locals \<Rightarrow> (fault + csim_stats \<times> mem) option" where
  "summary b S l =
     thn (count_dirty (memory l) S) (\<lambda>cd.
     thn (Some (totals b cd (dirty_eviction l))) (\<lambda>(dirty_byte, dirty_ev).
     (case malloc (memory l) of (stats, m1) \<Rightarrow>
        if stats = None then Some (Inl NullDeref)
        else
          thn (full_free_cache S m1) (\<lambda>m2.
          ok (\<lparr>hits = hit l, misses = miss l, evictions = eviction l,
               dirty_bytes = dirty_byte, dirty_evictions = dirty_ev\<rparr>, m2)))))"

text \<open>
  What a run shows: the summary, the message about an invalid operation, the message
  about the trace file, or nothing (the return after a failed set allocation).
\<close>

datatype outcome = Summary csim_stats | Not_valid char | Not_opened | Nothing

text \<open>The construction of the cache (lines 297-308): \<^verbatim>\<open>S\<close>, whether all sets were built, the memory.\<close>

definition prepare :: "int \<Rightarrow> bool list \<Rightarrow> fault + 64 word \<times> bool \<times> mem" where
  "prepare s plan =
     bnd (shl_ulong 1 s) (\<lambda>S.
     let m0 = \<lparr>blocks = Map.empty, sets = Map.empty, table = None, fresh = 0, outcomes = plan\<rparr> in
     (case malloc m0 of (cache, m1) \<Rightarrow>
        let m2 = (if cache = None then m1 else m1\<lparr>table := Some (replicate (unat S) None)\<rparr>) in
        bnd (build_sets (unat S) 0 m2) (\<lambda>(built, m3). Inr (S, built, m3))))"

text \<open>The counters at the start of the loop (lines 325-326).\<close>

definition start :: "mem \<Rightarrow> locals" where
  "start m = \<lparr>memory = m, hit = 0, miss = 0, eviction = 0, dirty_eviction = 0, printed = []\<rparr>"

text \<open>
  \<^verbatim>\<open>main\<close> from line 297 on, with the options already parsed. The trace is the list
  of the lines that \<^verbatim>\<open>fscanf\<close> reads, \<open>None\<close> when the file cannot be opened. The result
  is what is shown, the verbose lines, and the memory at the end.
\<close>

definition csim ::
  "bool \<Rightarrow> int \<Rightarrow> int \<Rightarrow> int \<Rightarrow> event list option \<Rightarrow> bool list
     \<Rightarrow> (fault + outcome \<times> (char \<times> 64 word \<times> int \<times> string) list \<times> mem) option" where
  "csim v s E b trace plan =
     thn (Some (prepare s plan)) (\<lambda>(S, built, m3).
       if \<not> built then ok (Nothing, [], m3)
       else
         (case trace of
            None \<Rightarrow> thn (full_free_cache (unat S) m3) (\<lambda>m4. ok (Not_opened, [], m4))
          | Some evs \<Rightarrow>
              thn (trace_loop v s E b S evs (start m3)) (\<lambda>ex.
                (case ex of
                   Invalid_operator c l1 \<Rightarrow> ok (Not_valid c, printed l1, memory l1)
                 | End_of_trace l1 \<Rightarrow>
                     thn (summary b (unat S) l1) (\<lambda>(stats, m5).
                     ok (Summary stats, printed l1, m5))))))"

text \<open>
  The state in which the \<^verbatim>\<open>while\<close> loop leaves a run whose cache was built and whose
  trace file was opened (\<open>None\<close> otherwise): \<^verbatim>\<open>main\<close> up to line 420.
\<close>

definition replay ::
  "bool \<Rightarrow> int \<Rightarrow> int \<Rightarrow> int \<Rightarrow> event list \<Rightarrow> bool list \<Rightarrow> (fault + loop_exit option) option" where
  "replay v s E b evs plan =
     thn (Some (prepare s plan)) (\<lambda>(S, built, m3).
       if \<not> built then ok None
       else thn (trace_loop v s E b S evs (start m3)) (\<lambda>ex. ok (Some ex)))"

text \<open>The \<^verbatim>\<open>size\<close> fields of the sets, in the order of the array.\<close>

definition set_sizes :: "mem \<Rightarrow> int option list" where
  "set_sizes m =
     (case table m of None \<Rightarrow> []
      | Some tbl \<Rightarrow> map (\<lambda>p. map_option size_s (Option.bind p (sets m))) tbl)"

text \<open>What a run shows, without the memory it leaves.\<close>

definition shown ::
  "(fault + outcome \<times> (char \<times> 64 word \<times> int \<times> string) list \<times> mem) option
     \<Rightarrow> (fault + outcome \<times> (char \<times> 64 word \<times> int \<times> string) list) option" where
  "shown r = map_option (map_sum id (\<lambda>(out, pr, m). (out, pr))) r"

text \<open>The \<^verbatim>\<open>size\<close> fields when the loop has reached the end of the trace.\<close>

definition sizes_at_exit :: "(fault + loop_exit option) option \<Rightarrow> int option list option" where
  "sizes_at_exit r =
     (case r of Some (Inr (Some (End_of_trace l))) \<Rightarrow> Some (set_sizes (memory l)) | _ \<Rightarrow> None)"

section \<open>Properties\<close>

lemma bnd_simps [simp]:
  "bnd (Inl e) f = Inl e"
  "bnd (Inr v) f = f v"
  by (simp_all add: bnd_def)

lemma thn_simps [simp]:
  "thn None f = None"
  "thn (Some (Inl e)) f = Some (Inl e)"
  "thn (Some (Inr v)) f = f v"
  "thn (ok v) f = f v"
  by (simp_all add: thn_def ok_def)

text \<open>
  C8: \<^verbatim>\<open>cache_set_size\<close> does not meet the contract "0 for a null or empty set, else the
  tracked size". For every set pointer that is not \<^verbatim>\<open>NULL\<close> the result is 0, whatever
  the set holds (also for a set that exists, is not empty and has a tracked size other
  than 0), and a \<^verbatim>\<open>NULL\<close> argument is dereferenced.
\<close>

theorem cache_set_size_inverted_guard:
  "cache_set_size (Some sa) m = Inr 0
   \<and> cache_set_size None m = Inl NullDeref
   \<and> (\<exists>m' st. sets m' sa = Some st \<and> head st \<noteq> None \<and> head st \<noteq> tail st \<and> size_s st \<noteq> 0
        \<and> cache_set_size (Some sa) m' \<noteq> Inr (size_s st))"
proof -
  let ?st = "\<lparr>head = Some 0, curr = Some 0, size_s = 1, tail = None\<rparr>"
  let ?m = "\<lparr>blocks = Map.empty, sets = [sa \<mapsto> ?st], table = None, fresh = 0, outcomes = []\<rparr>"
  have "sets ?m sa = Some ?st \<and> head ?st \<noteq> None \<and> head ?st \<noteq> tail ?st \<and> size_s ?st \<noteq> 0
        \<and> cache_set_size (Some sa) ?m \<noteq> Inr (size_s ?st)"
    by (simp add: cache_set_size_def)
  then have "\<exists>m' st. sets m' sa = Some st \<and> head st \<noteq> None \<and> head st \<noteq> tail st \<and> size_s st \<noteq> 0
        \<and> cache_set_size (Some sa) m' \<noteq> Inr (size_s st)"
    by blast
  then show ?thesis
    by (simp add: cache_set_size_def set_at_def)
qed

text \<open>
  C6: with \<open>E = 1\<close>, one set (\<open>s = 0\<close>) and \<open>b = 0\<close>, the trace \<^verbatim>\<open>L 0,1\<close>, \<^verbatim>\<open>L 1,1\<close>,
  \<^verbatim>\<open>L 0,1\<close> gives the lines "miss", "miss eviction", "miss eviction" and the totals
  3 misses, 2 evictions, 0 hits (run in verbose mode, every allocation succeeding).
\<close>

theorem scenario_miss_evict_evict:
  "shown (csim True 0 1 0
            (Some [(CHR ''L'', 0, 1), (CHR ''L'', 1, 1), (CHR ''L'', 0, 1)]) [])
   = Some (Inr (Summary \<lparr>hits = 0, misses = 3, evictions = 2, dirty_bytes = 0,
                          dirty_evictions = 0\<rparr>,
                [(CHR ''L'', 0, 1, ''miss''), (CHR ''L'', 1, 1, ''miss eviction''),
                 (CHR ''L'', 0, 1, ''miss eviction'')]))"
  by code_simp

subsection \<open>The size field\<close>

text \<open>
  C1: the tracked size of a set is at most \<open>E\<close> at all times, and an evicting insert
  leaves it at \<open>E\<close>. The code does not keep this: \<^verbatim>\<open>cache_set_remove_tail\<close> never
  decrements \<^verbatim>\<open>size\<close> (\<^verbatim>\<open>cache_set_remove_current\<close> does), and
  \<^verbatim>\<open>cache_set_insert_head\<close> always increments it. With \<open>E = 1\<close> and one set, the size
  is 1 after \<^verbatim>\<open>L 0,1\<close> and 2 after the evicting \<^verbatim>\<open>L 1,1\<close>.
\<close>

theorem size_field_exceeds_associativity:
  "sizes_at_exit (replay False 0 1 0 [(CHR ''L'', 0, 1)] []) = Some [Some 1]
   \<and> sizes_at_exit (replay False 0 1 0 [(CHR ''L'', 0, 1), (CHR ''L'', 1, 1)] []) = Some [Some 2]"
  by code_simp

subsection \<open>Allocation failure\<close>

text \<open>
  C5: every failed allocation ends the run cleanly. The code checks the result of
  \<^verbatim>\<open>new_cache_set\<close> only: when the second of two sets cannot be allocated, the run
  releases what it holds and shows nothing. The result of \<^verbatim>\<open>new_cache_block\<close> is
  not checked: when the block of the first miss cannot be allocated (the array and the
  set having been allocated), \<^verbatim>\<open>cache_set_insert_head\<close> dereferences \<^verbatim>\<open>NULL\<close>.
\<close>

theorem block_allocation_failure_unchecked:
  "shown (csim False 0 1 0 (Some [(CHR ''L'', 0, 1)]) [True, True, False])
     = Some (Inl NullDeref)
   \<and> shown (csim False 1 1 0 (Some [(CHR ''L'', 0, 1)]) [True, True, False])
       = Some (Inr (Nothing, []))"
  by code_simp

subsection \<open>Address decomposition\<close>

lemma unat_two_power: "n < 64 \<Longrightarrow> unat (2 ^ n :: 64 word) = 2 ^ n"
proof -
  assume n: "n < 64"
  have "(2 ^ n :: 64 word) = of_nat (2 ^ n)"
    by simp
  then have "unat (2 ^ n :: 64 word) = 2 ^ n mod 2 ^ 64"
    by (simp only: unat_of_nat) simp
  moreover have "(2::nat) ^ n < 2 ^ 64"
    using n by (simp only: power_strict_increasing_iff)
  ultimately show ?thesis
    by (simp only: mod_less)
qed

text \<open>
  C7, as stated, for every geometry: with \<open>s = 0\<close> and \<open>b = 64\<close> the shift
  \<^verbatim>\<open>address >> b\<close> has a count that is not below the width of \<^verbatim>\<open>unsigned long\<close>;
  no set index and no tag are computed.
\<close>

theorem locate_shift_out_of_range:
  "shl_ulong 1 0 = Inr 1 \<and> locate 0 64 1 1 = Inl ShiftRange"
  by (simp add: shl_ulong_def locate_def shr_ulong_def)

text \<open>
  C7, amended: for every address \<open>A\<close> and every geometry with \<open>0 \<le> s\<close>, \<open>0 \<le> b\<close> and
  \<open>b + s < 64\<close>, the number of sets is \<open>2 ^ s\<close>, the set index is \<open>(A >> b) mod 2 ^ s\<close>
  and the tag is \<open>A >> (b + s)\<close>; no address is refused.
\<close>

theorem locate_index_and_tag:
  assumes "0 \<le> s" "0 \<le> b" "b + s < 64"
  shows "\<exists>S ws wl. shl_ulong 1 s = Inr S \<and> unat S = 2 ^ nat s
           \<and> locate s b S A = Inr (ws, wl)
           \<and> unat ws = (unat A div 2 ^ nat b) mod 2 ^ nat s
           \<and> unat wl = unat A div 2 ^ nat (b + s)"
proof -
  have S: "shl_ulong 1 s = Inr (2 ^ nat s)"
    using assms by (simp add: shl_ulong_def)
  have "nat s < 64"
    using assms by simp
  then have U: "unat (2 ^ nat s :: 64 word) = 2 ^ nat s"
    by (rule unat_two_power)
  have m: "(2 ^ nat s - 1 :: 64 word) = mask (nat s)"
    by (simp add: mask_eq_exp_minus_1)
  have L: "locate s b (2 ^ nat s) A
             = Inr (take_bit (nat s) (drop_bit (nat b) A), drop_bit (nat (b + s)) A)"
    using assms
    by (simp add: locate_def shr_ulong_def add_int_def INT_MIN_def INT_MAX_def m take_bit_eq_mask)
  have 1: "unat (take_bit (nat s) (drop_bit (nat b) A)) = (unat A div 2 ^ nat b) mod 2 ^ nat s"
    by (simp only: unsigned_take_bit_eq unat_drop_bit_eq take_bit_eq_mod [where 'a = nat]
          drop_bit_eq_div [where 'a = nat])
  have 2: "unat (drop_bit (nat (b + s)) A) = unat A div 2 ^ nat (b + s)"
    by (simp only: unat_drop_bit_eq drop_bit_eq_div [where 'a = nat])
  show ?thesis
    using S U L 1 2 by blast
qed

theorem locate_index_and_tag_witness:
  "(0::int) \<le> 1 \<and> (0::int) \<le> 2 \<and> (2::int) + 1 < 64
   \<and> (\<exists>S ws wl. shl_ulong 1 1 = Inr S \<and> unat S = 2 ^ nat 1
         \<and> locate 1 2 S 13 = Inr (ws, wl)
         \<and> unat ws = (unat (13 :: 64 word) div 2 ^ nat 2) mod 2 ^ nat 1
         \<and> unat wl = unat (13 :: 64 word) div 2 ^ nat (2 + 1))"
  using locate_index_and_tag [of 1 2 13] by simp

subsection \<open>The totals\<close>





end
